theory Spec2Isabelle
  imports Main
begin

section \<open>MessageContext: the default context value\<close>

text \<open>
  \<^verbatim>\<open>frontend/src/contexts/MessageContext.tsx\<close>. The default value is an object literal.
  Optional callbacks are options (\<open>None\<close> is \<^verbatim>\<open>undefined\<close>), the highlighted message
  is an option (\<open>None\<close> is \<^verbatim>\<open>null\<close>). A callback acts on the world it is called in,
  so \<open>onError\<close> is a transformer of a world \<open>'w\<close>; the arrow function
  \<^verbatim>\<open>() => undefined\<close> changes nothing. The mode \<open>cot\<close> is the string literal of the
  source.
\<close>

record 'w message_context =
  highlightedMessage :: "string option"
  loading :: bool
  editable :: bool
  onElementRefClick :: "(string \<Rightarrow> 'w \<Rightarrow> 'w) option"
  onFeedbackUpdated :: "(string \<Rightarrow> 'w \<Rightarrow> 'w) option"
  showFeedbackButtons :: bool
  onError :: "string \<Rightarrow> 'w \<Rightarrow> 'w"
  uiName :: string
  cot :: string
  isStreaming :: bool

definition defaultMessageContext :: "'w message_context" where
  "defaultMessageContext =
     \<lparr> highlightedMessage = None,
       loading = False,
       editable = False,
       onElementRefClick = None,
       onFeedbackUpdated = None,
       showFeedbackButtons = True,
       onError = (\<lambda>_ w. w),
       uiName = [],
       cot = ''hidden'',
       isStreaming = False \<rparr>"

section \<open>ScrollContainer: data\<close>

text \<open>
  The component of \<^verbatim>\<open>src/unnamed/part_000\<close>. Pixel measurements are integers (the DOM's
  \<^verbatim>\<open>clientHeight\<close>, \<^verbatim>\<open>offsetTop\<close>, \<^verbatim>\<open>offsetHeight\<close> and \<^verbatim>\<open>scrollHeight\<close> are; on them
  the arithmetic of the source is exact).
\<close>

text \<open>A message of the list given by \<^verbatim>\<open>useChatMessages\<close>: only its \<^verbatim>\<open>type\<close> is read.\<close>

record message =
  msg_type :: string

text \<open>
  A rendered node below the container: its \<^verbatim>\<open>data-step-type\<close> attribute (if any) and its
  box.
\<close>

record node =
  data_step_type :: "string option"
  offsetTop :: int
  offsetHeight :: int

text \<open>
  The element behind \<^verbatim>\<open>ref\<close>: the scroll offset, the height of the viewport, the height
  of the rendered children (everything in the scrolled box but the spacer), the
  destination of a smooth scroll that has been asked for and has not ended, and the
  rendered nodes in document order.
\<close>

record container =
  scrollTop :: int
  clientHeight :: int
  contentHeight :: int
  smoothScroll :: "int option"
  nodes :: "node list"

text \<open>\<^verbatim>\<open>style.height\<close> of the spacer: never written, or \<^verbatim>\<open>`${n}px`\<close>.\<close>

datatype css_height = Unset | Px int

text \<open>
  Callbacks waiting to run: the timeout of \<^verbatim>\<open>checkScrollEnd\<close> (its closure holds
  \<^verbatim>\<open>prevScrollTop\<close>), the timeout of the mount effect, and the animation frame of
  \<^verbatim>\<open>scrollToPosition\<close> (its closure holds the \<^verbatim>\<open>updateSpacerHeight\<close> of the render, that
  is the \<^verbatim>\<open>isStreaming\<close> it was made with).
\<close>

datatype task = CheckScrollEndTimeout int | MountTimeout | ScrollToPositionFrame bool

text \<open>
  The state the component reads and writes: the three refs (\<open>None\<close> is \<^verbatim>\<open>null\<close>; the
  spacer is known by its \<^verbatim>\<open>style.height\<close>), the two \<^verbatim>\<open>useState\<close> cells, the optional
  prop \<^verbatim>\<open>autoScrollRef\<close> (\<open>None\<close>: not supplied, \<open>Some b\<close>: supplied, with
  \<^verbatim>\<open>current = b\<close>), the clock in milliseconds, the pending timeouts with the time they
  are due, the pending animation frames, and the resize listeners of the window (each
  holds the \<^verbatim>\<open>isStreaming\<close> of its \<^verbatim>\<open>updateSpacerHeight\<close>). A state setter takes effect
  before the next handler runs. \<^verbatim>\<open>lastUserMessageRef\<close> holds the node with the box it had
  when it was stored.
\<close>

record scroll_state =
  ref :: "container option"
  spacerRef :: "css_height option"
  lastUserMessageRef :: "node option"
  showScrollButton :: bool
  isScrolling :: bool
  autoScrollRef :: "bool option"
  now :: nat
  timers :: "(nat \<times> task) list"
  frames :: "task list"
  resizeListeners :: "bool list"

section \<open>The operations of the DOM the component calls\<close>

text \<open>
  These are the platform's, not the repository's: what the component reads from and asks
  of the scrolled element. The spacer is the last child of the container, so the
  scrollable height \<^verbatim>\<open>scrollHeight\<close> is the height of the children plus the spacer's, and
  never less than the viewport. A scroll offset is kept within \<open>0\<close> and the greatest
  offset \<^verbatim>\<open>scrollHeight - clientHeight\<close>: an assignment to \<^verbatim>\<open>scrollTop\<close> and the end of a
  smooth scroll both clamp their destination (a negative one gives \<open>0\<close>, one beyond the
  end gives the greatest offset), under the layout in force at that moment.
\<close>

definition spacerPixels :: "css_height option \<Rightarrow> int" where
  "spacerPixels h = (case h of Some (Px n) \<Rightarrow> max 0 n | _ \<Rightarrow> 0)"

definition scrollHeight :: "scroll_state \<Rightarrow> container \<Rightarrow> int" where
  "scrollHeight s c = max (clientHeight c) (contentHeight c + spacerPixels (spacerRef s))"

definition maxScrollTop :: "scroll_state \<Rightarrow> container \<Rightarrow> int" where
  "maxScrollTop s c = scrollHeight s c - clientHeight c"

definition clampScroll :: "scroll_state \<Rightarrow> container \<Rightarrow> int \<Rightarrow> int" where
  "clampScroll s c x = min (max 0 x) (maxScrollTop s c)"

text \<open>\<^verbatim>\<open>el.scrollTo({ top, behavior: 'smooth' })\<close>: the scroll is only started.\<close>

definition scrollTo_smooth :: "int \<Rightarrow> container \<Rightarrow> container" where
  "scrollTo_smooth y c = c\<lparr>smoothScroll := Some y\<rparr>"

text \<open>\<^verbatim>\<open>el.scrollTop = x\<close>: at once, ending a smooth scroll under way.\<close>

definition set_scrollTop :: "int \<Rightarrow> scroll_state \<Rightarrow> container \<Rightarrow> container" where
  "set_scrollTop x s c = c\<lparr>scrollTop := clampScroll s c x, smoothScroll := None\<rparr>"

text \<open>
  \<^verbatim>\<open>spacer.style.height = h\<close>: the style is written. (A layout pass that moves the
  offset afterwards is a step of the browser, \<open>scrolled\<close> below.)
\<close>

definition set_spacer_height :: "css_height \<Rightarrow> scroll_state \<Rightarrow> scroll_state" where
  "set_spacer_height h s = s\<lparr>spacerRef := Some h\<rparr>"

text \<open>The smooth scroll under way, if any, comes to rest.\<close>

definition settle :: "scroll_state \<Rightarrow> scroll_state" where
  "settle s =
     (case ref s of
        None \<Rightarrow> s
      | Some c \<Rightarrow>
          (case smoothScroll c of
             None \<Rightarrow> s
           | Some t \<Rightarrow> s\<lparr>ref := Some (c\<lparr>scrollTop := clampScroll s c t, smoothScroll := None\<rparr>)\<rparr>))"

text \<open>The scroll has moved the offset to \<open>x\<close> (a sample of the animation, or the user's).\<close>

definition scrolled :: "int \<Rightarrow> scroll_state \<Rightarrow> scroll_state" where
  "scrolled x s = s\<lparr>ref := map_option (\<lambda>c. c\<lparr>scrollTop := x\<rparr>) (ref s)\<rparr>"

text \<open>\<^verbatim>\<open>querySelectorAll('[data-step-type="user_message"]')\<close>.\<close>

definition querySelectorAll_user_message :: "container \<Rightarrow> node list" where
  "querySelectorAll_user_message c =
     filter (\<lambda>n. data_step_type n = Some ''user_message'') (nodes c)"

text \<open>\<^verbatim>\<open>setTimeout\<close> and \<^verbatim>\<open>requestAnimationFrame\<close>.\<close>

definition setTimeout :: "task \<Rightarrow> nat \<Rightarrow> scroll_state \<Rightarrow> scroll_state" where
  "setTimeout t d s = s\<lparr>timers := timers s @ [(now s + d, t)]\<rparr>"

definition requestAnimationFrame :: "task \<Rightarrow> scroll_state \<Rightarrow> scroll_state" where
  "requestAnimationFrame t s = s\<lparr>frames := frames s @ [t]\<rparr>"

section \<open>ScrollContainer: the component\<close>

text \<open>\<^verbatim>\<open>scrollTop + clientHeight >= scrollHeight - 10\<close>, as in the three places it is computed.\<close>

definition atBottom :: "scroll_state \<Rightarrow> container \<Rightarrow> bool" where
  "atBottom s c \<longleftrightarrow> scrollTop c + clientHeight c \<ge> scrollHeight s c - 10"

text \<open>\<^verbatim>\<open>updateSpacerHeight\<close>, of the render whose \<^verbatim>\<open>isStreaming\<close> is \<open>streaming\<close>.\<close>

definition updateSpacerHeight :: "bool \<Rightarrow> scroll_state \<Rightarrow> scroll_state" where
  "updateSpacerHeight streaming s =
     (case (ref s, lastUserMessageRef s, spacerRef s) of
        (Some c, Some m, Some _) \<Rightarrow>
          if streaming then
            (let containerHeight = clientHeight c;
                 lastMessageTop = offsetTop m;
                 lastMessageHeight = offsetHeight m;
                 newSpacerHeight = max 0 (containerHeight - (lastMessageTop + lastMessageHeight) + 20);
                 s1 = set_spacer_height (Px newSpacerHeight) s
             in s1\<lparr>ref := map_option (set_scrollTop (lastMessageTop - 20) s1) (ref s1)\<rparr>)
          else set_spacer_height (Px 0) s
      | _ \<Rightarrow> s)"

text \<open>\<^verbatim>\<open>checkScrollEnd\<close>: samples the offset and arms the 100 ms timeout.\<close>

definition checkScrollEnd :: "scroll_state \<Rightarrow> scroll_state" where
  "checkScrollEnd s =
     (case ref s of
        None \<Rightarrow> s
      | Some c \<Rightarrow> setTimeout (CheckScrollEndTimeout (scrollTop c)) 100 s)"

text \<open>The callback of that timeout.\<close>

definition checkScrollEndTimeout :: "int \<Rightarrow> scroll_state \<Rightarrow> scroll_state" where
  "checkScrollEndTimeout prevScrollTop s =
     (case ref s of
        None \<Rightarrow> s
      | Some c \<Rightarrow>
          if scrollTop c = prevScrollTop
          then s\<lparr>isScrolling := False, showScrollButton := \<not> atBottom s c\<rparr>
          else checkScrollEnd s)"

text \<open>\<^verbatim>\<open>scrollToBottom\<close>.\<close>

definition scrollToBottom :: "scroll_state \<Rightarrow> scroll_state" where
  "scrollToBottom s =
     (case ref s of
        None \<Rightarrow> s
      | Some c \<Rightarrow>
          (let s1 = s\<lparr>isScrolling := True\<rparr>;
               s2 = s1\<lparr>ref := Some (scrollTo_smooth (scrollHeight s1 c) c)\<rparr>;
               s3 = (case autoScrollRef s2 of None \<Rightarrow> s2 | Some _ \<Rightarrow> s2\<lparr>autoScrollRef := Some True\<rparr>);
               s4 = s3\<lparr>showScrollButton := False\<rparr>
           in checkScrollEnd s4))"

text \<open>\<^verbatim>\<open>scrollToPosition\<close>, and the callback of its animation frame.\<close>

definition scrollToPosition :: "bool \<Rightarrow> scroll_state \<Rightarrow> scroll_state" where
  "scrollToPosition streaming s =
     (case (ref s, lastUserMessageRef s) of
        (Some c, Some m) \<Rightarrow>
          (let s1 = s\<lparr>isScrolling := True\<rparr>;
               scrollPosition = offsetTop m - 20;
               s2 = s1\<lparr>ref := Some (scrollTo_smooth scrollPosition c)\<rparr>
           in requestAnimationFrame (ScrollToPositionFrame streaming) s2)
      | _ \<Rightarrow> s)"

definition scrollToPositionFrame :: "bool \<Rightarrow> scroll_state \<Rightarrow> scroll_state" where
  "scrollToPositionFrame streaming s =
     checkScrollEnd ((updateSpacerHeight streaming s)\<lparr>showScrollButton := False\<rparr>)"

text \<open>\<^verbatim>\<open>handleScroll\<close>, the \<^verbatim>\<open>onScroll\<close> handler of the container.\<close>

definition handleScroll :: "scroll_state \<Rightarrow> scroll_state" where
  "handleScroll s =
     (case ref s of
        None \<Rightarrow> s
      | Some c \<Rightarrow>
          if isScrolling s then s
          else
            (let at_bottom = atBottom s c;
                 s1 = (case autoScrollRef s of None \<Rightarrow> s | Some _ \<Rightarrow> s\<lparr>autoScrollRef := Some at_bottom\<rparr>)
             in s1\<lparr>showScrollButton := \<not> at_bottom\<rparr>))"

text \<open>
  The effect on \<^verbatim>\<open>[messages, isStreaming, updateSpacerHeight]\<close>. The optional chaining
  \<^verbatim>\<open>messages[messages.length - 1]?.type\<close> is \<^verbatim>\<open>undefined\<close> on the empty list.
\<close>

definition lastIsUserMessage :: "message list \<Rightarrow> bool" where
  "lastIsUserMessage messages =
     (case messages of [] \<Rightarrow> False | _ \<Rightarrow> msg_type (last messages) = ''user_message'')"

definition messagesEffect :: "message list \<Rightarrow> bool \<Rightarrow> scroll_state \<Rightarrow> scroll_state" where
  "messagesEffect messages streaming s =
     (case ref s of
        None \<Rightarrow> s
      | Some c \<Rightarrow>
          if length messages = 0 \<and> spacerRef s \<noteq> None then set_spacer_height (Px 0) s
          else
            (let userMessages = querySelectorAll_user_message c
             in if length userMessages > 0 then
                  (let lastUserMessage = userMessages ! (length userMessages - 1);
                       s1 = s\<lparr>lastUserMessageRef := Some lastUserMessage\<rparr>;
                       s2 = (if lastIsUserMessage messages then scrollToPosition streaming s1
                             else if \<not> streaming then scrollToBottom s1
                             else s1)
                   in updateSpacerHeight streaming s2)
                else s))"


definition resizeEffect :: "bool \<Rightarrow> bool \<Rightarrow> scroll_state \<Rightarrow> scroll_state" where
  "resizeEffect autoScrollUserMessage streaming s =
     (if \<not> autoScrollUserMessage then s
      else updateSpacerHeight streaming (s\<lparr>resizeListeners := resizeListeners s @ [streaming]\<rparr>))"

text \<open>
  The cleanup the effect returns (none when \<^verbatim>\<open>autoScrollUserMessage\<close> is false): it
  removes the listener that run of the effect added.
\<close>

definition resizeEffectCleanup :: "bool \<Rightarrow> bool \<Rightarrow> scroll_state \<Rightarrow> scroll_state" where
  "resizeEffectCleanup autoScrollUserMessage streaming s =
     (if \<not> autoScrollUserMessage then s
      else s\<lparr>resizeListeners := remove1 streaming (resizeListeners s)\<rparr>)"

text \<open>
  A dependency has changed: the cleanup of the previous run, then the effect with the
  new \<^verbatim>\<open>autoScrollUserMessage\<close> and \<^verbatim>\<open>updateSpacerHeight\<close>.
\<close>

definition resizeEffectRerun :: "bool \<Rightarrow> bool \<Rightarrow> bool \<Rightarrow> bool \<Rightarrow> scroll_state \<Rightarrow> scroll_state" where
  "resizeEffectRerun prevAutoScrollUserMessage prevStreaming autoScrollUserMessage streaming s =
     resizeEffect autoScrollUserMessage streaming
       (resizeEffectCleanup prevAutoScrollUserMessage prevStreaming s)"


text \<open>The effect on mount, and the callback of its 500 ms timeout.\<close>

definition mountEffect :: "scroll_state \<Rightarrow> scroll_state" where
  "mountEffect s = (case ref s of None \<Rightarrow> s | Some _ \<Rightarrow> setTimeout MountTimeout 500 s)"

definition mountTimeout :: "scroll_state \<Rightarrow> scroll_state" where
  "mountTimeout s =
     (case ref s of
        None \<Rightarrow> s
      | Some c \<Rightarrow> s\<lparr>showScrollButton := \<not> atBottom s c\<rparr>)"

section \<open>Running the pending callbacks\<close>

fun runTask :: "task \<Rightarrow> scroll_state \<Rightarrow> scroll_state" where
  "runTask (CheckScrollEndTimeout prevScrollTop) s = checkScrollEndTimeout prevScrollTop s"
| "runTask MountTimeout s = mountTimeout s"
| "runTask (ScrollToPositionFrame streaming) s = scrollToPositionFrame streaming s"

text \<open>The timeout due first (the one set first, among equals).\<close>

fun earliest :: "(nat \<times> task) list \<Rightarrow> (nat \<times> task) option" where
  "earliest [] = None"
| "earliest (t # ts) =
     (case earliest ts of
        None \<Rightarrow> Some t
      | Some u \<Rightarrow> if fst t \<le> fst u then Some t else Some u)"

text \<open>
  The clock reaches the time the next timeout is due, and its callback runs (a timeout
  fires when it is due, not later).
\<close>

definition fireTimer :: "scroll_state \<Rightarrow> scroll_state" where
  "fireTimer s =
     (case earliest (timers s) of
        None \<Rightarrow> s
      | Some (due, t) \<Rightarrow>
          runTask t (s\<lparr>now := max (now s) due, timers := remove1 (due, t) (timers s)\<rparr>))"


text \<open>
  The timer chain of \<^verbatim>\<open>checkScrollEnd\<close> against the offsets the scroll has reached when
  each timeout fires.
\<close>

fun poll :: "int list \<Rightarrow> scroll_state \<Rightarrow> scroll_state" where
  "poll [] s = s"
| "poll (x # xs) s = poll xs (fireTimer (scrolled x s))"

section \<open>Concrete states\<close>

text \<open>
  Messages of the two kinds, a user's message rendered at the top of the container and
  a long reply rendered below it.
\<close>

definition user_msg :: message where
  "user_msg = \<lparr> msg_type = ''user_message'' \<rparr>"

definition assistant_msg :: message where
  "assistant_msg = \<lparr> msg_type = ''assistant_message'' \<rparr>"

definition ex_user_node :: node where
  "ex_user_node = \<lparr> data_step_type = Some ''user_message'', offsetTop = 0, offsetHeight = 40 \<rparr>"

definition ex_reply_node :: node where
  "ex_reply_node =
     \<lparr> data_step_type = Some ''assistant_message'', offsetTop = 40, offsetHeight = 1500 \<rparr>"

text \<open>
  A chat whose only rendered message is the user's first one, in a viewport 600 pixels
  high, with every ref attached and \<^verbatim>\<open>autoScrollRef\<close> supplied.
\<close>

definition ex_container :: container where
  "ex_container =
     \<lparr> scrollTop = 0, clientHeight = 600, contentHeight = 40, smoothScroll = None,
       nodes = [ex_user_node] \<rparr>"

definition ex_state :: scroll_state where
  "ex_state =
     \<lparr> ref = Some ex_container, spacerRef = Some Unset, lastUserMessageRef = Some ex_user_node,
       showScrollButton = False, isScrolling = False, autoScrollRef = Some False, now = 0,
       timers = [], frames = [], resizeListeners = [] \<rparr>"

text \<open>The same chat once the reply is rendered: 1540 pixels of content.\<close>

definition ex_long_container :: container where
  "ex_long_container =
     \<lparr> scrollTop = 0, clientHeight = 600, contentHeight = 1540, smoothScroll = None,
       nodes = [ex_user_node, ex_reply_node] \<rparr>"

definition ex_long_state :: scroll_state where
  "ex_long_state = ex_state\<lparr>ref := Some ex_long_container\<rparr>"

text \<open>A second user message further down, at offset 1540, in 3000 pixels of content.\<close>

definition ex_second_container :: container where
  "ex_second_container =
     \<lparr> scrollTop = 0, clientHeight = 600, contentHeight = 3000, smoothScroll = None,
       nodes = [ex_user_node, ex_reply_node, ex_user_node\<lparr>offsetTop := 1540\<rparr>] \<rparr>"

definition ex_second_state :: scroll_state where
  "ex_second_state = ex_state\<lparr>ref := Some ex_second_container\<rparr>"

text \<open>A chat that opens with a message of the assistant: no user message is rendered.\<close>

definition ex_welcome_container :: container where
  "ex_welcome_container =
     \<lparr> scrollTop = 0, clientHeight = 600, contentHeight = 1540, smoothScroll = None,
       nodes = [ex_reply_node] \<rparr>"

definition ex_welcome_state :: scroll_state where
  "ex_welcome_state = ex_state\<lparr>ref := Some ex_welcome_container, lastUserMessageRef := None\<rparr>"

text \<open>The chat with the second user message once that node is the tracked one.\<close>

definition ex_streaming_state :: scroll_state where
  "ex_streaming_state =
     ex_second_state\<lparr>lastUserMessageRef := Some (ex_user_node\<lparr>offsetTop := 1540\<rparr>)\<rparr>"

text \<open>
  The second user message as the last thing rendered: 1580 pixels of content end with
  it, and it is the tracked node.
\<close>

definition ex_tail_container :: container where
  "ex_tail_container =
     \<lparr> scrollTop = 0, clientHeight = 600, contentHeight = 1580, smoothScroll = None,
       nodes = [ex_user_node, ex_reply_node, ex_user_node\<lparr>offsetTop := 1540\<rparr>] \<rparr>"

definition ex_tail_state :: scroll_state where
  "ex_tail_state =
     ex_state\<lparr>ref := Some ex_tail_container,
              lastUserMessageRef := Some (ex_user_node\<lparr>offsetTop := 1540\<rparr>)\<rparr>"

lemmas ex_defs = ex_streaming_state_def user_msg_def assistant_msg_def ex_user_node_def ex_reply_node_def
  ex_container_def ex_state_def ex_long_container_def ex_long_state_def
  ex_second_container_def ex_second_state_def ex_welcome_container_def ex_welcome_state_def
  ex_tail_container_def ex_tail_state_def

section \<open>Facts shared by the proofs\<close>

lemma spacerPixels_nonneg: "0 \<le> spacerPixels h"
  by (simp add: spacerPixels_def split: option.splits css_height.splits)

lemma spacerPixels_Px_0: "spacerPixels (Some (Px 0)) = 0"
  by (simp add: spacerPixels_def)

lemma clampScroll_scrollHeight:
  assumes "0 \<le> clientHeight c" and "spacerPixels (spacerRef s') \<le> spacerPixels (spacerRef s)"
    and "clientHeight c' = clientHeight c" and "contentHeight c' = contentHeight c"
  shows "clampScroll s' c' (scrollHeight s c) = maxScrollTop s' c'"
  using assms by (simp add: clampScroll_def maxScrollTop_def scrollHeight_def)



text \<open>Across the runs of the resize effect one listener is registered, the latest.\<close>

lemma resizeListeners_updateSpacerHeight:
  "resizeListeners (updateSpacerHeight streaming s) = resizeListeners s"
  by (simp add: updateSpacerHeight_def set_spacer_height_def Let_def
      split: option.splits)

lemma resizeEffectRerun_listeners:
  assumes "resizeListeners s = []"
  shows "resizeListeners (resizeEffectRerun True prevStreaming True streaming
                            (resizeEffect True prevStreaming s)) = [streaming]"
  using assms
  by (simp add: resizeEffectRerun_def resizeEffect_def resizeEffectCleanup_def
      resizeListeners_updateSpacerHeight)



text \<open>The same, when the newest message is not the user's and nothing is streaming.\<close>

lemma messagesEffect_other_message:
  assumes "ref s = Some c" and "messages \<noteq> []" and "\<not> lastIsUserMessage messages"
    and "querySelectorAll_user_message c \<noteq> []"
  shows "messagesEffect messages False s =
           updateSpacerHeight False
             (scrollToBottom (s\<lparr>lastUserMessageRef := Some (last (querySelectorAll_user_message c))\<rparr>))"
  using assms
  by (simp add: messagesEffect_def last_conv_nth Let_def)

lemma scrollToBottom_attached:
  assumes "ref s = Some c"
  shows "scrollToBottom s =
           s\<lparr>isScrolling := True,
              ref := Some (c\<lparr>smoothScroll := Some (scrollHeight s c)\<rparr>),
              autoScrollRef := map_option (\<lambda>_. True) (autoScrollRef s),
              showScrollButton := False,
              timers := timers s @ [(now s + 100, CheckScrollEndTimeout (scrollTop c))]\<rparr>"
  using assms
  by (cases "autoScrollRef s")
     (simp_all add: scrollToBottom_def Let_def scrollTo_smooth_def checkScrollEnd_def setTimeout_def
        scrollHeight_def)

text \<open>One firing of the timeout of \<^verbatim>\<open>checkScrollEnd\<close>: the offset has moved, or has not.\<close>

lemma fireTimer_moving:
  assumes "ref t = Some c" and "timers t = [(now t + 100, CheckScrollEndTimeout p)]" and "x \<noteq> p"
  shows "fireTimer (scrolled x t) =
           t\<lparr>ref := Some (c\<lparr>scrollTop := x\<rparr>), now := now t + 100,
              timers := [(now t + 200, CheckScrollEndTimeout x)]\<rparr>"
  using assms
  by (simp add: fireTimer_def scrolled_def checkScrollEndTimeout_def checkScrollEnd_def setTimeout_def)

lemma fireTimer_at_rest:
  assumes "ref t = Some c" and "timers t = [(now t + 100, CheckScrollEndTimeout p)]"
  shows "fireTimer (scrolled p t) =
           t\<lparr>ref := Some (c\<lparr>scrollTop := p\<rparr>), now := now t + 100, timers := [],
              isScrolling := False,
              showScrollButton := \<not> atBottom t (c\<lparr>scrollTop := p\<rparr>)\<rparr>"
  using assms
  by (simp add: fireTimer_def scrolled_def checkScrollEndTimeout_def atBottom_def scrollHeight_def)

lemma poll_append: "poll (xs @ ys) t = poll ys (poll xs t)"
  by (induction xs arbitrary: t) simp_all

text \<open>
  As long as each sample differs from the one before, the chain only moves the clock
  and re-arms its timeout.
\<close>

lemma poll_moving:
  assumes "ref t = Some c" and "timers t = [(now t + 100, CheckScrollEndTimeout (scrollTop c))]"
    and "distinct_adj (scrollTop c # xs)"
  shows "poll xs t =
           t\<lparr>ref := Some (c\<lparr>scrollTop := last (scrollTop c # xs)\<rparr>),
              now := now t + 100 * length xs,
              timers := [(now t + 100 * length xs + 100, CheckScrollEndTimeout (last (scrollTop c # xs)))]\<rparr>"
  using assms
proof (induction xs arbitrary: t c)
  case Nil
  then show ?case by simp
next
  case (Cons x xs)
  from Cons.prems(3) have ne: "x \<noteq> scrollTop c" and rest: "distinct_adj (x # xs)"
    by auto
  let ?t = "fireTimer (scrolled x t)"
  let ?c = "c\<lparr>scrollTop := x\<rparr>"
  have step: "?t = t\<lparr>ref := Some ?c, now := now t + 100,
              timers := [(now t + 200, CheckScrollEndTimeout x)]\<rparr>"
    by (rule fireTimer_moving [OF Cons.prems(1,2) ne])
  have r: "ref ?t = Some ?c"
    by (simp add: step)
  have tm: "timers ?t = [(now ?t + 100, CheckScrollEndTimeout (scrollTop ?c))]"
    by (simp add: step)
  have d: "distinct_adj (scrollTop ?c # xs)"
    using rest by simp
  have "poll (x # xs) t = poll xs ?t"
    by simp
  also have "\<dots> = ?t\<lparr>ref := Some (?c\<lparr>scrollTop := last (scrollTop ?c # xs)\<rparr>),
              now := now ?t + 100 * length xs,
              timers := [(now ?t + 100 * length xs + 100, CheckScrollEndTimeout (last (scrollTop ?c # xs)))]\<rparr>"
    by (rule Cons.IH [OF r tm d])
  also have "\<dots> = t\<lparr>ref := Some (c\<lparr>scrollTop := last (scrollTop c # x # xs)\<rparr>),
              now := now t + 100 * length (x # xs),
              timers := [(now t + 100 * length (x # xs) + 100, CheckScrollEndTimeout (last (scrollTop c # x # xs)))]\<rparr>"
    by (simp add: step)
  finally show ?case .
qed

section \<open>The default context\<close>

text \<open>
  C5, as stated: every boolean flag of \<^verbatim>\<open>defaultMessageContext\<close> is false, in particular
  \<^verbatim>\<open>loading\<close>, \<^verbatim>\<open>editable\<close>, \<^verbatim>\<open>showFeedbackButtons\<close> and \<^verbatim>\<open>isStreaming\<close>. The object
  literal has \<^verbatim>\<open>showFeedbackButtons: true\<close>, so the four are not all false.
\<close>

theorem defaultMessageContext_flags_counterexample:
  "\<not> (loading (defaultMessageContext :: unit message_context) = False
      \<and> editable (defaultMessageContext :: unit message_context) = False
      \<and> showFeedbackButtons (defaultMessageContext :: unit message_context) = False
      \<and> isStreaming (defaultMessageContext :: unit message_context) = False)"
  by (simp add: defaultMessageContext_def)

text \<open>
  C5, amended. In \<^verbatim>\<open>defaultMessageContext\<close> the flags \<^verbatim>\<open>loading\<close>, \<^verbatim>\<open>editable\<close> and
  \<^verbatim>\<open>isStreaming\<close> are false and \<^verbatim>\<open>showFeedbackButtons\<close> is true; \<^verbatim>\<open>cot\<close> is
  \<^verbatim>\<open>'hidden'\<close>; the highlighted message is \<^verbatim>\<open>null\<close>, the display name is empty, the two
  optional callbacks are absent, and \<^verbatim>\<open>onError\<close> changes nothing whatever it is given.
\<close>

theorem defaultMessageContext_values:
  "loading (defaultMessageContext :: 'w message_context) = False
   \<and> editable (defaultMessageContext :: 'w message_context) = False
   \<and> isStreaming (defaultMessageContext :: 'w message_context) = False
   \<and> showFeedbackButtons (defaultMessageContext :: 'w message_context) = True
   \<and> cot (defaultMessageContext :: 'w message_context) = ''hidden''
   \<and> highlightedMessage (defaultMessageContext :: 'w message_context) = None
   \<and> uiName (defaultMessageContext :: 'w message_context) = []
   \<and> onElementRefClick (defaultMessageContext :: 'w message_context) = None
   \<and> onFeedbackUpdated (defaultMessageContext :: 'w message_context) = None
   \<and> (\<forall>e w. onError (defaultMessageContext :: 'w message_context) e w = w)"
  by (simp add: defaultMessageContext_def)

section \<open>The spacer\<close>

text \<open>
  C1. A recomputation of the spacer with the container, the spacer and the last user
  message attached writes \<open>max 0 (containerHeight - (top + height) + 20)\<close> pixels while
  streaming and \<open>0\<close> pixels otherwise; the height written is never negative.
\<close>

theorem updateSpacerHeight_spacer:
  assumes "ref s = Some c" and "lastUserMessageRef s = Some m" and "spacerRef s = Some h"
  shows "spacerRef (updateSpacerHeight streaming s) =
           Some (Px (if streaming
                     then max 0 (clientHeight c - (offsetTop m + offsetHeight m) + 20)
                     else 0))
         \<and> (\<exists>n. spacerRef (updateSpacerHeight streaming s) = Some (Px n) \<and> 0 \<le> n)"
  using assms by (simp add: updateSpacerHeight_def set_spacer_height_def Let_def)

theorem updateSpacerHeight_spacer_witness:
  "spacerRef (updateSpacerHeight True ex_state) = Some (Px 580)
   \<and> spacerRef (updateSpacerHeight False ex_state) = Some (Px 0)"
  using updateSpacerHeight_spacer [of ex_state ex_container ex_user_node Unset True]
        updateSpacerHeight_spacer [of ex_state ex_container ex_user_node Unset False]
  by (simp add: ex_user_node_def ex_container_def ex_state_def)




section \<open>The effect on the messages\<close>

text \<open>
  C6. On an update with the empty list, with the container and the spacer attached, the
  effect writes \<^verbatim>\<open>'0px'\<close> to the spacer and does nothing else: the state is otherwise
  the one before, so no node is looked up, no scroll is asked for and nothing is
  scheduled.
\<close>

theorem messagesEffect_empty:
  assumes "ref s = Some c" and "spacerRef s = Some h"
  shows "messagesEffect [] streaming s = s\<lparr>spacerRef := Some (Px 0)\<rparr>"
  using assms by (simp add: messagesEffect_def set_spacer_height_def)

theorem messagesEffect_empty_witness:
  "messagesEffect [] True ex_long_state = ex_long_state\<lparr>spacerRef := Some (Px 0)\<rparr>
   \<and> lastUserMessageRef (messagesEffect [] True ex_welcome_state) = None
   \<and> ref (messagesEffect [] True ex_long_state) = Some ex_long_container"
  using messagesEffect_empty [of ex_long_state ex_long_container Unset True]
        messagesEffect_empty [of ex_welcome_state ex_welcome_container Unset True]
  by (simp add: ex_defs)

text \<open>
  C9. On an update with a non-empty list, when no rendered node carries
  \<^verbatim>\<open>data-step-type="user_message"\<close>, the effect leaves the state as it is, streaming or
  not: no scroll, no write to the spacer.
\<close>

theorem messagesEffect_no_user_node:
  assumes "messages \<noteq> []" and "ref s = Some c"
    and "\<forall>n \<in> set (nodes c). data_step_type n \<noteq> Some ''user_message''"
  shows "messagesEffect messages streaming s = s"
  using assms by (simp add: messagesEffect_def querySelectorAll_user_message_def filter_empty_conv)

theorem messagesEffect_no_user_node_witness:
  "messagesEffect [assistant_msg] False ex_welcome_state = ex_welcome_state"
  using messagesEffect_no_user_node [of "[assistant_msg]" ex_welcome_state ex_welcome_container False]
  by (simp add: ex_defs)




text \<open>
  C3, as stated: on every update with nothing streaming and a newest message that is not
  the user's, the viewport is scrolled to the bottom. In a chat that opens with a
  message of the assistant no user-message node is rendered, the effect asks for no
  scroll, and the viewport stays at offset 0 with 940 pixels below it.
\<close>

theorem messagesEffect_scrollToBottom_counterexample:
  "[assistant_msg] \<noteq> [] \<and> \<not> lastIsUserMessage [assistant_msg]
   \<and> settle (messagesEffect [assistant_msg] False ex_welcome_state) = ex_welcome_state
   \<and> ref ex_welcome_state = Some ex_welcome_container
   \<and> smoothScroll ex_welcome_container = None
   \<and> scrollTop ex_welcome_container = 0
   \<and> maxScrollTop ex_welcome_state ex_welcome_container = 940"
  by code_simp

text \<open>
  C3, amended. On an update with nothing streaming and a newest message that is not the
  user's, when the container is attached and at least one user-message node is
  rendered, the effect asks for a smooth scroll to \<^verbatim>\<open>scrollHeight\<close>, and the scroll comes
  to rest at the greatest offset of the container.
\<close>

theorem messagesEffect_scrollToBottom:
  assumes "ref s = Some c" and "messages \<noteq> []" and "\<not> lastIsUserMessage messages"
    and "querySelectorAll_user_message c \<noteq> []" and "0 \<le> clientHeight c"
    and "s' = settle (messagesEffect messages False s)"
  shows "(\<exists>c1. ref (messagesEffect messages False s) = Some c1
            \<and> smoothScroll c1 = Some (scrollHeight s c))
       \<and> (\<exists>c'. ref s' = Some c' \<and> smoothScroll c' = None \<and> scrollTop c' = maxScrollTop s' c')"
proof -
  let ?s1 = "s\<lparr>lastUserMessageRef := Some (last (querySelectorAll_user_message c))\<rparr>"
  let ?c1 = "c\<lparr>smoothScroll := Some (scrollHeight s c)\<rparr>"
  have r1: "ref ?s1 = Some c"
    using assms(1) by simp
  have h: "scrollHeight ?s1 c = scrollHeight s c"
    by (simp add: scrollHeight_def)
  note E = messagesEffect_other_message [OF assms(1-4)]
  note B = scrollToBottom_attached [OF r1, unfolded h]
  have ref_E: "ref (messagesEffect messages False s) = Some ?c1"
    unfolding E B
    by (cases "spacerRef s") (simp_all add: updateSpacerHeight_def set_spacer_height_def)
  have sp_E: "spacerRef (messagesEffect messages False s) = map_option (\<lambda>_. Px 0) (spacerRef s)"
    unfolding E B
    by (cases "spacerRef s") (simp_all add: updateSpacerHeight_def set_spacer_height_def)
  have le: "spacerPixels (spacerRef (messagesEffect messages False s)) \<le> spacerPixels (spacerRef s)"
    unfolding sp_E
    by (cases "spacerRef s") (simp_all add: spacerPixels_Px_0 spacerPixels_nonneg)
  have cl: "clampScroll (messagesEffect messages False s) ?c1 (scrollHeight s c)
              = maxScrollTop (messagesEffect messages False s) ?c1"
    by (rule clampScroll_scrollHeight [OF assms(5) le]) simp_all
  let ?c' = "?c1\<lparr>scrollTop := maxScrollTop (messagesEffect messages False s) ?c1, smoothScroll := None\<rparr>"
  have s': "s' = (messagesEffect messages False s)\<lparr>ref := Some ?c'\<rparr>"
    unfolding assms(6) by (simp add: settle_def ref_E cl)
  have "ref s' = Some ?c'" "smoothScroll ?c' = None" "scrollTop ?c' = maxScrollTop s' ?c'"
    unfolding s' by (simp_all add: maxScrollTop_def scrollHeight_def)
  with ref_E show ?thesis by simp
qed

theorem messagesEffect_scrollToBottom_witness:
  "map_option smoothScroll (ref (messagesEffect [user_msg, assistant_msg] False ex_long_state))
     = Some (Some 1540)
   \<and> map_option scrollTop (ref (settle (messagesEffect [user_msg, assistant_msg] False ex_long_state)))
     = Some 940"
proof -
  have h1: "ref ex_long_state = Some ex_long_container"
    by (simp add: ex_defs)
  have h2: "[user_msg, assistant_msg] \<noteq> []"
    by simp
  have h3: "\<not> lastIsUserMessage [user_msg, assistant_msg]"
    by (simp add: lastIsUserMessage_def assistant_msg_def)
  have h4: "querySelectorAll_user_message ex_long_container \<noteq> []"
    by (simp add: querySelectorAll_user_message_def ex_defs)
  have h5: "0 \<le> clientHeight ex_long_container"
    by (simp add: ex_defs)
  have val: "map_option smoothScroll (ref (messagesEffect [user_msg, assistant_msg] False ex_long_state))
     = Some (Some 1540)
   \<and> map_option scrollTop (ref (settle (messagesEffect [user_msg, assistant_msg] False ex_long_state)))
     = Some 940"
    by code_simp
  from messagesEffect_scrollToBottom [OF h1 h2 h3 h4 h5 refl] val
  show ?thesis by simp
qed

section \<open>The button and the caller's flag\<close>

text \<open>
  C4. With the container attached, each recomputation of the button's visibility (a
  scroll event while no programmatic scroll is under way, the timeout of
  \<^verbatim>\<open>checkScrollEnd\<close> that finds the offset unchanged, and the timeout of the mount effect)
  hides the button if and only if \<^verbatim>\<open>scrollTop + clientHeight >= scrollHeight - 10\<close>, that
  is when the offset is within 10 pixels of the greatest one; a scroll event during a
  programmatic scroll changes nothing.
\<close>

theorem showScrollButton_recomputed:
  assumes "ref s = Some c"
  shows "(\<not> isScrolling s \<longrightarrow>
            (\<not> showScrollButton (handleScroll s)) = (scrollTop c + clientHeight c \<ge> scrollHeight s c - 10))
       \<and> (isScrolling s \<longrightarrow> handleScroll s = s)
       \<and> (\<not> showScrollButton (checkScrollEndTimeout (scrollTop c) s))
            = (scrollTop c + clientHeight c \<ge> scrollHeight s c - 10)
       \<and> (\<not> showScrollButton (mountTimeout s))
            = (scrollTop c + clientHeight c \<ge> scrollHeight s c - 10)
       \<and> (timers s = [] \<longrightarrow> fireTimer (mountEffect s) = (mountTimeout s)\<lparr>now := now s + 500\<rparr>)
       \<and> ((scrollTop c + clientHeight c \<ge> scrollHeight s c - 10) = (maxScrollTop s c - scrollTop c \<le> 10))"
  using assms
  by (auto simp add: handleScroll_def checkScrollEndTimeout_def mountTimeout_def atBottom_def Let_def
      maxScrollTop_def mountEffect_def setTimeout_def fireTimer_def scrollHeight_def split: option.splits)

theorem showScrollButton_recomputed_witness:
  "showScrollButton (handleScroll ex_long_state)
   \<and> showScrollButton (checkScrollEndTimeout 0 ex_long_state)
   \<and> showScrollButton (mountTimeout ex_long_state)
   \<and> showScrollButton (fireTimer (mountEffect ex_long_state))
   \<and> \<not> showScrollButton (handleScroll (scrolled 935 ex_long_state))
   \<and> handleScroll (ex_long_state\<lparr>isScrolling := True\<rparr>) = ex_long_state\<lparr>isScrolling := True\<rparr>"
  using showScrollButton_recomputed [of ex_long_state ex_long_container]
        showScrollButton_recomputed [of "scrolled 935 ex_long_state" "ex_long_container\<lparr>scrollTop := 935\<rparr>"]
        showScrollButton_recomputed [of "ex_long_state\<lparr>isScrolling := True\<rparr>" ex_long_container]
  by (simp add: ex_defs scrollHeight_def spacerPixels_def scrolled_def)

text \<open>
  C7. With the container attached, \<^verbatim>\<open>scrollToBottom\<close> writes \<^verbatim>\<open>true\<close> to \<^verbatim>\<open>autoScrollRef\<close>
  when the caller supplied it, and a scroll event outside a programmatic scroll writes
  whether \<^verbatim>\<open>scrollTop + clientHeight >= scrollHeight - 10\<close>; when the ref is not supplied
  it stays so.
\<close>

theorem autoScrollRef_written:
  assumes "ref s = Some c"
  shows "autoScrollRef (scrollToBottom s) = map_option (\<lambda>_. True) (autoScrollRef s)
       \<and> (\<not> isScrolling s \<longrightarrow>
            autoScrollRef (handleScroll s) =
              map_option (\<lambda>_. scrollTop c + clientHeight c \<ge> scrollHeight s c - 10) (autoScrollRef s))"
  using assms
  by (simp add: scrollToBottom_def handleScroll_def checkScrollEnd_def setTimeout_def atBottom_def Let_def
      scrollTo_smooth_def split: option.splits)

theorem autoScrollRef_written_witness:
  "autoScrollRef (scrollToBottom ex_long_state) = Some True
   \<and> autoScrollRef (handleScroll ex_long_state) = Some False
   \<and> autoScrollRef (scrollToBottom (ex_long_state\<lparr>autoScrollRef := None\<rparr>)) = None
   \<and> autoScrollRef (handleScroll (ex_long_state\<lparr>autoScrollRef := None\<rparr>)) = None"
  using autoScrollRef_written [of ex_long_state ex_long_container]
        autoScrollRef_written [of "ex_long_state\<lparr>autoScrollRef := None\<rparr>" ex_long_container]
  by (simp add: ex_defs scrollHeight_def spacerPixels_def)

section \<open>The end of a scroll\<close>

text \<open>
  C8. \<^verbatim>\<open>checkScrollEnd\<close> samples the offset every 100 ms. Started with the container
  attached, no other timeout pending and \<^verbatim>\<open>isScrolling\<close> set, and run against samples
  \<open>xs\<close> each different from the one before (the first from the offset at the start):
  after them \<^verbatim>\<open>isScrolling\<close> is still set, the clock has advanced by 100 ms per sample
  and one timeout is pending, 100 ms later, holding the last sample. If the next
  sample equals the last one, that firing clears \<^verbatim>\<open>isScrolling\<close>, arms nothing and sets
  the button from the test of C4.
\<close>

theorem checkScrollEnd_chain:
  assumes "ref s = Some c" and "timers s = []" and "isScrolling s"
    and "distinct_adj (scrollTop c # xs)"
    and "y = last (scrollTop c # xs)"
  shows "isScrolling (poll xs (checkScrollEnd s))
       \<and> timers (poll xs (checkScrollEnd s))
            = [(now s + 100 * length xs + 100, CheckScrollEndTimeout y)]
       \<and> now (poll xs (checkScrollEnd s)) = now s + 100 * length xs
       \<and> \<not> isScrolling (poll (xs @ [y]) (checkScrollEnd s))
       \<and> timers (poll (xs @ [y]) (checkScrollEnd s)) = []
       \<and> now (poll (xs @ [y]) (checkScrollEnd s)) = now s + 100 * length xs + 100
       \<and> showScrollButton (poll (xs @ [y]) (checkScrollEnd s))
            = (\<not> (y + clientHeight c \<ge> scrollHeight s c - 10))"
proof -
  let ?t = "checkScrollEnd s"
  have t: "?t = s\<lparr>timers := [(now s + 100, CheckScrollEndTimeout (scrollTop c))]\<rparr>"
    using assms(1,2) by (simp add: checkScrollEnd_def setTimeout_def)
  have r: "ref ?t = Some c"
    using assms(1) by (simp add: t)
  have tm: "timers ?t = [(now ?t + 100, CheckScrollEndTimeout (scrollTop c))]"
    by (simp add: t)
  note P = poll_moving [OF r tm assms(4), folded assms(5)]
  let ?u = "poll xs ?t"
  have ru: "ref ?u = Some (c\<lparr>scrollTop := y\<rparr>)"
    unfolding P by simp
  have tu: "timers ?u = [(now ?u + 100, CheckScrollEndTimeout y)]"
    unfolding P by simp
  have Q: "poll (xs @ [y]) ?t = fireTimer (scrolled y ?u)"
    by (simp add: poll_append)
  note R = fireTimer_at_rest [OF ru tu]
  have moving: "isScrolling ?u" "timers ?u = [(now s + 100 * length xs + 100, CheckScrollEndTimeout y)]"
    "now ?u = now s + 100 * length xs"
    using assms(3) unfolding P by (simp_all add: t)
  have rest: "\<not> isScrolling (poll (xs @ [y]) ?t)" "timers (poll (xs @ [y]) ?t) = []"
    "now (poll (xs @ [y]) ?t) = now s + 100 * length xs + 100"
    unfolding Q R unfolding P by (simp_all add: t)
  have button: "showScrollButton (poll (xs @ [y]) ?t) = (\<not> (y + clientHeight c \<ge> scrollHeight s c - 10))"
    unfolding Q R unfolding P by (simp add: t atBottom_def scrollHeight_def)
  from moving rest button show ?thesis by simp
qed

theorem checkScrollEnd_chain_witness:
  "isScrolling (poll [10, 60, 110] (checkScrollEnd (ex_long_state\<lparr>isScrolling := True\<rparr>)))
   \<and> timers (poll [10, 60, 110] (checkScrollEnd (ex_long_state\<lparr>isScrolling := True\<rparr>)))
        = [(400, CheckScrollEndTimeout 110)]
   \<and> \<not> isScrolling (poll [10, 60, 110, 110] (checkScrollEnd (ex_long_state\<lparr>isScrolling := True\<rparr>)))
   \<and> now (poll [10, 60, 110, 110] (checkScrollEnd (ex_long_state\<lparr>isScrolling := True\<rparr>))) = 400
   \<and> showScrollButton (poll [10, 60, 110, 110] (checkScrollEnd (ex_long_state\<lparr>isScrolling := True\<rparr>)))"
proof -
  have h1: "ref (ex_long_state\<lparr>isScrolling := True\<rparr>) = Some ex_long_container"
    by (simp add: ex_defs)
  have h2: "timers (ex_long_state\<lparr>isScrolling := True\<rparr>) = []"
    by (simp add: ex_defs)
  have h3: "isScrolling (ex_long_state\<lparr>isScrolling := True\<rparr>)"
    by simp
  have h4: "distinct_adj (scrollTop ex_long_container # [10, 60, 110])"
    by (simp add: ex_defs)
  have h5: "110 = last (scrollTop ex_long_container # [10, 60, 110])"
    by simp
  have n: "now (ex_long_state\<lparr>isScrolling := True\<rparr>) = 0"
    by (simp add: ex_defs)
  have l: "scrollHeight (ex_long_state\<lparr>isScrolling := True\<rparr>) ex_long_container = 1540"
    "clientHeight ex_long_container = 600"
    by (simp_all add: ex_defs scrollHeight_def spacerPixels_def)
  from checkScrollEnd_chain [OF h1 h2 h3 h4 h5]
  show ?thesis by (simp add: n l)
qed

end
